theory Spec2Isabelle
  imports Main
begin

section \<open>Values of the host language\<close>

text \<open>
  The router is JavaScript: arguments are dynamically typed, and \<open>createResource\<close>
  inspects \<open>typeof name\<close>. A value is one of the shapes below. A handler is a function
  object; the only one this code knows by itself is the responder that answers
  501 Not Implemented, every other one is a caller's function, told apart by a number.
\<close>

datatype handler = notImplemented | Middleware nat

datatype jsval =
    JUndefined
  | JNull
  | JBool bool
  | JNum int
  | JStr string
  | JFn handler
  | JArr "jsval list"
  | JObj "(string \<times> jsval) list"

text \<open>The \<open>typeof\<close> operator; \<open>null\<close> and arrays are objects.\<close>

fun typeof :: "jsval \<Rightarrow> string" where
  "typeof JUndefined = ''undefined''"
| "typeof JNull = ''object''"
| "typeof (JBool b) = ''boolean''"
| "typeof (JNum n) = ''number''"
| "typeof (JStr s) = ''string''"
| "typeof (JFn f) = ''function''"
| "typeof (JArr xs) = ''object''"
| "typeof (JObj kvs) = ''object''"

text \<open>
  Reading a property \<open>obj[key]\<close>: a plain object is an association list in which the
  first entry for a key is the property; a key that is not there reads \<open>undefined\<close>.
\<close>

fun get_prop :: "jsval \<Rightarrow> string \<Rightarrow> jsval" where
  "get_prop (JObj kvs) k = (case map_of kvs k of Some v \<Rightarrow> v | None \<Rightarrow> JUndefined)"
| "get_prop v k = JUndefined"

text \<open>
  The entry of a key in the list of an object's properties, and the list of the
  properties of a value: only a plain object has any.
\<close>

definition entry :: "(string \<times> jsval) list \<Rightarrow> string \<Rightarrow> jsval" where
  "entry kvs k = (case map_of kvs k of Some v \<Rightarrow> v | None \<Rightarrow> JUndefined)"

fun props :: "jsval \<Rightarrow> (string \<times> jsval) list" where
  "props (JObj kvs) = kvs"
| "props v = []"

text \<open>
  \<open>a || b\<close> yields \<open>a\<close> when it is truthy and \<open>b\<close> otherwise. The falsy values
  are \<open>undefined\<close>, \<open>null\<close>, \<open>false\<close>, \<open>0\<close> and the empty string.
\<close>

fun truthy :: "jsval \<Rightarrow> bool" where
  "truthy JUndefined = False"
| "truthy JNull = False"
| "truthy (JBool b) = b"
| "truthy (JNum n) = (n \<noteq> 0)"
| "truthy (JStr s) = (s \<noteq> [])"
| "truthy v = True"

definition js_or :: "jsval \<Rightarrow> jsval \<Rightarrow> jsval" where
  "js_or a b = (if truthy a then a else b)"

text \<open>
  A value used as a property key, \<open>ctrl[key]\<close>, is converted to a string: a string is
  itself, \<open>undefined\<close> is the key \<open>undefined\<close>, a number its decimal numeral, an
  array its elements joined by commas (with \<open>null\<close> and \<open>undefined\<close> elements
  empty), an object \<open>[object Object]\<close>. A function is converted to its source text,
  which the model does not carry; the text \<open>function\<close> stands for it.
\<close>

fun digits :: "nat \<Rightarrow> string" where
  "digits n =
     (if n < 10 then [''0123456789'' ! n]
      else digits (n div 10) @ [''0123456789'' ! (n mod 10)])"

definition numeral_text :: "int \<Rightarrow> string" where
  "numeral_text n = (if n < 0 then ''-'' @ digits (nat (- n)) else digits (nat n))"

fun join_comma :: "string list \<Rightarrow> string" where
  "join_comma [] = []"
| "join_comma [x] = x"
| "join_comma (x # y # ys) = x @ '','' @ join_comma (y # ys)"

fun prop_key :: "jsval \<Rightarrow> string" where
  "prop_key JUndefined = ''undefined''"
| "prop_key JNull = ''null''"
| "prop_key (JBool b) = (if b then ''true'' else ''false'')"
| "prop_key (JNum n) = numeral_text n"
| "prop_key (JStr s) = s"
| "prop_key (JFn f) = ''function''"
| "prop_key (JArr xs) =
     join_comma (List.map (\<lambda>x. if x = JUndefined \<or> x = JNull then [] else prop_key x) xs)"
| "prop_key (JObj kvs) = ''[object Object]''"

datatype error = TypeError

section \<open>Data model\<close>

text \<open>
  A route object as the base router's \<open>createRoute\<close> returns it: the request method
  (the field \<open>route.method\<close>, called \<open>http_method\<close> here), the route pattern relative
  to the prefix (\<open>route.route\<close>), and the middlewares. The prefix, the prefixed path and
  the matcher are computed by the base router alone and are read nowhere in this code;
  they are left out.
\<close>

record route_object =
  http_method :: string
  route :: string
  middlewares :: "jsval list"

text \<open>
  A resource object is an array of route objects that may carry a \<open>name\<close> property
  (\<open>src.name = ...\<close> in \<open>createResource\<close>). Arrays are objects with identity: they live
  in a heap and are passed around as references. The heap is a list of arrays, a
  reference is a position in it, and allocation appends.
\<close>

record resource_object =
  items :: "route_object list"
  name :: "string option"

type_synonym ref = nat

definition lookup :: "resource_object list \<Rightarrow> ref \<Rightarrow> resource_object option" where
  "lookup h p = (if p < length h then Some (h ! p) else None)"

definition alloc :: "resource_object list \<Rightarrow> resource_object \<Rightarrow> resource_object list \<times> ref" where
  "alloc h obj = (h @ [obj], length h)"

text \<open>
  \<open>this.options\<close>: the request methods to use (\<open>options.methods\<close>), the controller
  methods to call (\<open>options.map\<close>), and every other key of the options object, such as
  the base router's \<open>prefix\<close>. Each is the list of an object's properties, in which
  the first entry for a key counts.
\<close>

record rest_options =
  methods :: "(string \<times> jsval) list"
  map_opt :: "(string \<times> jsval) list"
  others :: "(string \<times> jsval) list"

record router =
  options :: rest_options
  routes :: "route_object list"
  resources :: "ref list"
  heap :: "resource_object list"

text \<open>
  The \<open>inflection\<close> package is an external dependency; its two functions are taken as
  they come.
\<close>

record inflection =
  pluralize :: "string \<Rightarrow> string"
  singularize :: "string \<Rightarrow> string"

section \<open>The helpers of \<open>utils\<close> and the base router\<close>

text \<open>
  Modelled from the spec: the file \<open>utils.js\<close> (\<open>utils.defaultRequestMethods\<close>,
  \<open>utils.defaultControllerMap\<close>, \<open>utils.defaultController\<close>, \<open>utils.mergeOptions\<close>,
  \<open>utils.extend\<close>, \<open>utils.r\<close>, \<open>utils.createRouteObject\<close>) and the base router's
  \<open>createRoute\<close> are not part of the source at hand. The definitions of this section
  follow the specification's words.
\<close>

text \<open>
  Modelled from the spec: \<open>utils.defaultRequestMethods\<close> and
  \<open>utils.defaultControllerMap\<close>. Unspecified keys default to the canonical HTTP verbs
  and to the canonical action names.
\<close>

definition defaultRequestMethods :: "(string \<times> jsval) list" where
  "defaultRequestMethods =
     [(''get'', JStr ''GET''), (''put'', JStr ''PUT''), (''del'', JStr ''DELETE''),
      (''post'', JStr ''POST'')]"

definition defaultControllerMap :: "(string \<times> jsval) list" where
  "defaultControllerMap =
     [(''index'', JStr ''index''), (''new'', JStr ''new''), (''create'', JStr ''create''),
      (''show'', JStr ''show''), (''edit'', JStr ''edit''), (''update'', JStr ''update''),
      (''remove'', JStr ''remove'')]"

text \<open>
  Modelled from the spec: \<open>utils.defaultController\<close>, whose seven entries are all
  "respond 501 Not Implemented" handlers.
\<close>

definition defaultController :: "(string \<times> jsval) list" where
  "defaultController =
     [(''index'', JFn notImplemented), (''new'', JFn notImplemented),
      (''create'', JFn notImplemented), (''show'', JFn notImplemented),
      (''edit'', JFn notImplemented), (''update'', JFn notImplemented),
      (''remove'', JFn notImplemented)]"

text \<open>
  Modelled from the spec: \<open>utils.extend({}, defaults, ctrl)\<close> overlays the supplied
  controller onto the defaults. Only a plain object contributes properties.
\<close>

definition extend :: "(string \<times> jsval) list \<Rightarrow> jsval \<Rightarrow> jsval" where
  "extend defaults ctrl =
     (case ctrl of JObj kvs \<Rightarrow> JObj (kvs @ defaults) | _ \<Rightarrow> JObj defaults)"

text \<open>
  Modelled from the spec: \<open>utils.mergeOptions(options, opts)\<close> is a shallow merge of
  the overrides into the configuration in which the override wins per key: every key of
  the overrides replaces the configuration's entry for it, whatever its value, and the
  entries of the overrides' \<open>methods\<close> and \<open>map\<close> are merged key by key into the
  configuration's. The constructor passes the base router's own options (its
  \<open>prefix\<close>) through the same function, so no key is dropped.
\<close>

definition other_props :: "jsval \<Rightarrow> (string \<times> jsval) list" where
  "other_props opts = filter (\<lambda>(k, v). k \<noteq> ''methods'' \<and> k \<noteq> ''map'') (props opts)"

definition mergeOptions :: "rest_options \<Rightarrow> jsval \<Rightarrow> rest_options" where
  "mergeOptions defaults opts =
     \<lparr>methods = props (get_prop opts ''methods'') @ methods defaults,
      map_opt = props (get_prop opts ''map'') @ map_opt defaults,
      others = other_props opts @ others defaults\<rparr>"

text \<open>
  Modelled from the spec: \<open>utils.r(route, ...)\<close> renders the path patterns
  \<open>/{route}\<close>, \<open>/{route}/new\<close>, \<open>/{route}/{param}\<close> and \<open>/{route}/{param}/edit\<close>;
  an empty segment is left out, and the pattern of no segment at all is \<open>/\<close>.
\<close>

definition r :: "string \<Rightarrow> string list \<Rightarrow> string" where
  "r seg rest =
     (let url = concat (List.map (\<lambda>x. ''/'' @ x) (filter (\<lambda>x. x \<noteq> []) (seg # rest)))
      in if url = [] then ''/'' else url)"

text \<open>
  Modelled from the spec: the base router's \<open>createRoute(verb, path, handlers)\<close>. The
  verb is a string and is stored in upper case (configuring \<open>'post'\<close> yields the verb
  \<open>POST\<close>); a verb that is no string, such as \<open>undefined\<close> for a key the options do
  not have, throws a \<open>TypeError\<close>. One handler or a sequence of handlers becomes the
  sequence of middlewares, no handler (\<open>undefined\<close>) the empty sequence.
\<close>

definition upper_char :: "char \<Rightarrow> char" where
  "upper_char c =
     (let n = (of_char c :: nat) in if 97 \<le> n \<and> n \<le> 122 then char_of (n - 32) else c)"

definition toUpperCase :: "string \<Rightarrow> string" where
  "toUpperCase s = List.map upper_char s"

fun arrayify :: "jsval \<Rightarrow> jsval list" where
  "arrayify JUndefined = []"
| "arrayify JNull = []"
| "arrayify (JArr xs) = xs"
| "arrayify v = [v]"

fun is_string :: "jsval \<Rightarrow> bool" where
  "is_string (JStr s) = True"
| "is_string v = False"

fun string_of :: "jsval \<Rightarrow> string" where
  "string_of (JStr s) = s"
| "string_of v = []"

definition createRoute :: "jsval \<Rightarrow> string \<Rightarrow> jsval \<Rightarrow> error + route_object" where
  "createRoute verb path fns =
     (if is_string verb
      then Inr \<lparr>http_method = toUpperCase (string_of verb), route = path,
                middlewares = arrayify fns\<rparr>
      else Inl TypeError)"

text \<open>
  Modelled from the spec: \<open>utils.createRouteObject(self, dest, src, idx)\<close> gives the
  merged route object: the verb of \<open>dest\<close>, the path of \<open>dest\<close> followed by the path
  of \<open>src[idx]\<close>, and the handlers of \<open>src[idx]\<close>. Reading a property of \<open>src[idx]\<close>
  when \<open>src\<close> or \<open>src[idx]\<close> is \<open>undefined\<close> is a \<open>TypeError\<close>.
\<close>

definition createRouteObject ::
  "router \<Rightarrow> route_object \<Rightarrow> route_object list option \<Rightarrow> nat \<Rightarrow> error + route_object" where
  "createRouteObject self dest src idx =
     (case src of
        None \<Rightarrow> Inl TypeError
      | Some xs \<Rightarrow>
          if idx < length xs
          then Inr (dest\<lparr>route := route dest @ route (xs ! idx),
                          middlewares := middlewares (xs ! idx)\<rparr>)
          else Inl TypeError)"

section \<open>The router\<close>

text \<open>
  The constructor: the base router keeps the merged options and starts with no routes;
  \<open>this.resources = []\<close>.
\<close>

definition KoaRestRouter :: "jsval \<Rightarrow> router" where
  "KoaRestRouter opts =
     \<lparr>options = mergeOptions
                  \<lparr>methods = defaultRequestMethods, map_opt = defaultControllerMap, others = []\<rparr>
                  opts,
      routes = [],
      resources = [],
      heap = []\<rparr>"

text \<open>
  \<open>addRoutes\<close>: \<open>this.routes = this.routes.concat.apply(this.routes, arguments)\<close>.
  \<open>concat\<close> appends the elements of an argument that is an array and the argument
  itself when it is not. A reference that denotes no array of the heap stands for no
  value of the language and contributes nothing.
\<close>

datatype concat_arg = ArrayRef ref | Element route_object

definition spread :: "resource_object list \<Rightarrow> concat_arg \<Rightarrow> route_object list" where
  "spread h a =
     (case a of
        ArrayRef p \<Rightarrow> (case lookup h p of Some obj \<Rightarrow> items obj | None \<Rightarrow> [])
      | Element x \<Rightarrow> [x])"

definition addRoutes :: "router \<Rightarrow> concat_arg list \<Rightarrow> router" where
  "addRoutes this args = this\<lparr>routes := routes this @ concat (List.map (spread (heap this)) args)\<rparr>"

definition getRoutes :: "router \<Rightarrow> route_object list" where
  "getRoutes this = routes this"

definition addResource :: "router \<Rightarrow> concat_arg \<Rightarrow> router" where
  "addResource this resource = addRoutes this [resource]"

definition addResources :: "router \<Rightarrow> concat_arg list \<Rightarrow> router" where
  "addResources this args = addRoutes this args"

definition getResources :: "router \<Rightarrow> ref list" where
  "getResources this = resources this"

text \<open>
  \<open>getResource\<close>: the \<open>for ... of\<close> loop over \<open>this.resources\<close> stops at the first
  resource whose \<open>name\<close> is the given string; the result is that reference, or
  \<open>null\<close> (\<open>None\<close>).
\<close>

fun getResource_loop :: "resource_object list \<Rightarrow> ref list \<Rightarrow> string \<Rightarrow> ref option" where
  "getResource_loop h [] n = None"
| "getResource_loop h (p # ps) n =
     (case lookup h p of
        Some obj \<Rightarrow> if name obj = Some n then Some p else getResource_loop h ps n
      | None \<Rightarrow> getResource_loop h ps n)"

definition getResource :: "router \<Rightarrow> string \<Rightarrow> ref option" where
  "getResource this n = getResource_loop (heap this) (resources this) n"

text \<open>
  The seven \<open>src.push(this.createRoute(...))\<close> statements run in order; the first
  call that throws ends them.
\<close>

fun push_all :: "(error + 'a) list \<Rightarrow> error + 'a list" where
  "push_all [] = Inr []"
| "push_all (x # xs) =
     (case x of
        Inl e \<Rightarrow> Inl e
      | Inr v \<Rightarrow> (case push_all xs of Inl e \<Rightarrow> Inl e | Inr vs \<Rightarrow> Inr (v # vs)))"

text \<open>
  The route segment and the parameter name of a resource called \<open>name\<close>, as
  \<open>createResource\<close> computes them: \<open>_name\<close> is the name without one leading slash;
  for the name \<open>/\<close> the segment is empty and the parameter is \<open>:id\<close>.
\<close>

definition route_segment :: "inflection \<Rightarrow> string \<Rightarrow> string" where
  "route_segment infl nm =
     (let name' = (if take 1 nm = ''/'' then drop 1 nm else nm)
      in if nm \<noteq> ''/'' then pluralize infl name' else [])"

definition param_name :: "inflection \<Rightarrow> string \<Rightarrow> string" where
  "param_name infl nm =
     (let name' = (if take 1 nm = ''/'' then drop 1 nm else nm)
      in if nm \<noteq> ''/'' then '':'' @ singularize infl name' else '':id'')"

text \<open>
  \<open>createResource(name, ctrl, opts)\<close>. The result is the router after the call and
  either the error thrown or the reference of the new resource object. The options are
  assigned before the routes are created, so they are merged also when a
  \<open>createRoute\<close> throws.
\<close>

definition createResource ::
  "inflection \<Rightarrow> router \<Rightarrow> jsval \<Rightarrow> jsval \<Rightarrow> jsval \<Rightarrow> router \<times> (error + ref)" where
  "createResource infl this name0 ctrl0 opts0 =
     (let (name1, ctrl1, opts1) =
            (if typeof name0 = ''object'' then (JStr ''/'', name0, ctrl0)
             else (name0, ctrl0, opts0));
          name2 = (case name1 of JStr s \<Rightarrow> s | _ \<Rightarrow> ''/'');
          route = route_segment infl name2;
          param = param_name infl name2;
          this1 = this\<lparr>options := mergeOptions (options this) opts1\<rparr>;
          ctrl = extend defaultController ctrl1;
          get = entry (methods (options this1)) ''get'';
          put = entry (methods (options this1)) ''put'';
          del = js_or (entry (methods (options this1)) ''del'')
                      (entry (methods (options this1)) ''delete'');
          post = entry (methods (options this1)) ''post'';
          index' = prop_key (entry (map_opt (options this1)) ''index'');
          new' = prop_key (entry (map_opt (options this1)) ''new'');
          create' = prop_key (entry (map_opt (options this1)) ''create'');
          show' = prop_key (entry (map_opt (options this1)) ''show'');
          edit' = prop_key (entry (map_opt (options this1)) ''edit'');
          update' = prop_key (entry (map_opt (options this1)) ''update'');
          remove' = prop_key (entry (map_opt (options this1)) ''remove'')
      in case push_all
           [createRoute get (r route []) (get_prop ctrl index'),
            createRoute get (r route [''new'']) (get_prop ctrl new'),
            createRoute post (r route []) (get_prop ctrl create'),
            createRoute get (r route [param]) (get_prop ctrl show'),
            createRoute get (r route [param, ''edit'']) (get_prop ctrl edit'),
            createRoute put (r route [param]) (get_prop ctrl update'),
            createRoute del (r route [param]) (get_prop ctrl remove')]
         of
           Inl e \<Rightarrow> (this1, Inl e)
         | Inr src \<Rightarrow>
             (let (h, p) = alloc (heap this1)
                             \<lparr>items = src, name = Some (if route = [] then ''/'' else route)\<rparr>
              in (this1\<lparr>resources := resources this1 @ [p], heap := h\<rparr>, Inr p)))"

text \<open>
  \<open>resource(name, ctrl, opts)\<close>: \<open>createResource\<close>, then \<open>addResource\<close> of what it
  returned; the router itself is returned for chaining.
\<close>

definition resource :: "inflection \<Rightarrow> router \<Rightarrow> jsval \<Rightarrow> jsval \<Rightarrow> jsval \<Rightarrow> router \<times> (error + unit)" where
  "resource infl this name0 ctrl0 opts0 =
     (case createResource infl this name0 ctrl0 opts0 of
        (this1, Inl e) \<Rightarrow> (this1, Inl e)
      | (this1, Inr p) \<Rightarrow> (addResource this1 (ArrayRef p), Inr ()))"

text \<open>
  \<open>group(dest, src1, src2, src3, src4)\<close>. The call may pass any number of sources;
  the parameters \<open>src1\<close> to \<open>src4\<close> are the first four, \<open>undefined\<close> (\<open>None\<close>) when
  not passed. \<open>dest.map\<close> builds a new array, which the heap receives.
\<close>

definition arg_at :: "ref option list \<Rightarrow> nat \<Rightarrow> ref option" where
  "arg_at args i = (if i < length args then args ! i else None)"

definition deref :: "router \<Rightarrow> ref option \<Rightarrow> route_object list option" where
  "deref this a =
     (case a of
        None \<Rightarrow> None
      | Some p \<Rightarrow> (case lookup (heap this) p of Some obj \<Rightarrow> Some (items obj) | None \<Rightarrow> None))"

definition group_step ::
  "router \<Rightarrow> ref option \<Rightarrow> nat \<Rightarrow> error + route_object \<Rightarrow> error + route_object" where
  "group_step this src idx acc =
     (case acc of
        Inl e \<Rightarrow> Inl e
      | Inr rt \<Rightarrow> if src \<noteq> None then createRouteObject this rt (deref this src) idx else Inr rt)"

definition group_route ::
  "router \<Rightarrow> ref option \<Rightarrow> ref option \<Rightarrow> ref option \<Rightarrow> ref option \<Rightarrow>
   route_object \<Rightarrow> nat \<Rightarrow> error + route_object" where
  "group_route this src1 src2 src3 src4 destRoute idx =
     group_step this src4 idx
       (group_step this src3 idx
         (group_step this src2 idx
           (createRouteObject this destRoute (deref this src1) idx)))"

definition group :: "router \<Rightarrow> ref \<Rightarrow> ref option list \<Rightarrow> router \<times> (error + ref)" where
  "group this dest srcs =
     (let src1 = arg_at srcs 0; src2 = arg_at srcs 1; src3 = arg_at srcs 2; src4 = arg_at srcs 3
      in case lookup (heap this) dest of
           None \<Rightarrow> (this, Inl TypeError)
         | Some d \<Rightarrow>
             (case push_all
                     (List.map (\<lambda>(destRoute, idx). group_route this src1 src2 src3 src4 destRoute idx)
                        (zip (items d) [0 ..< length (items d)]))
              of
                Inl e \<Rightarrow> (this, Inl e)
              | Inr rs \<Rightarrow>
                  (let (h, p) = alloc (heap this) \<lparr>items = rs, name = None\<rparr>
                   in (this\<lparr>heap := h\<rparr>, Inr p))))"

text \<open>A small inflection for regular English nouns, to run the router on examples.\<close>

definition ends_with_s :: "string \<Rightarrow> bool" where
  "ends_with_s w = (w \<noteq> [] \<and> last w = CHR ''s'')"

definition regular_nouns :: inflection where
  "regular_nouns =
     \<lparr>pluralize = (\<lambda>w. if w = [] \<or> ends_with_s w then w else w @ ''s''),
      singularize = (\<lambda>w. if ends_with_s w then butlast w else w)\<rparr>"

section \<open>Notions used in the statements\<close>

text \<open>The resource object at a reference carries the given name.\<close>

definition has_name :: "resource_object list \<Rightarrow> string \<Rightarrow> ref \<Rightarrow> bool" where
  "has_name h n p = (case lookup h p of Some obj \<Rightarrow> name obj = Some n | None \<Rightarrow> False)"

text \<open>
  The options give the four request methods \<open>createResource\<close> reads as strings:
  \<open>get\<close>, \<open>put\<close>, \<open>post\<close>, and \<open>del\<close> or \<open>delete\<close>.
\<close>

definition verbs_configured :: "rest_options \<Rightarrow> bool" where
  "verbs_configured cfg =
     (is_string (entry (methods cfg) ''get'') \<and> is_string (entry (methods cfg) ''put'') \<and>
      is_string (entry (methods cfg) ''post'') \<and>
      is_string (js_or (entry (methods cfg) ''del'') (entry (methods cfg) ''delete'')))"

text \<open>The seven canonical actions, in the order in which their routes are created.\<close>

definition actions :: "string list" where
  "actions = [''index'', ''new'', ''create'', ''show'', ''edit'', ''update'', ''remove'']"

text \<open>
  The specification's reading of the segment and the parameter: the name itself is
  pluralized and singularized, whatever its first character.
\<close>

definition spec_route_segment :: "inflection \<Rightarrow> string \<Rightarrow> string" where
  "spec_route_segment infl nm = (if nm = ''/'' then [] else pluralize infl nm)"

definition spec_param_name :: "inflection \<Rightarrow> string \<Rightarrow> string" where
  "spec_param_name infl nm = (if nm = ''/'' then '':id'' else '':'' @ singularize infl nm)"

text \<open>
  The route object that \<open>group\<close> builds at one index from a destination route and
  the routes of the sources at that index, folded from left to right.
\<close>

definition nest_route :: "route_object \<Rightarrow> route_object \<Rightarrow> route_object" where
  "nest_route acc s = acc\<lparr>route := route acc @ route s, middlewares := middlewares s\<rparr>"

subsection \<open>Routers to run the code on\<close>

text \<open>
  The router \<open>api\<close> is a new router with no options; \<open>with_cats\<close> is what one
  \<open>createResource('cats')\<close> leaves of it, and \<open>with_cats_twice\<close> what a further
  \<open>createResource('cat')\<close> leaves, a second resource of the same name. The other
  routers hold a few arrays of route objects made by hand.
\<close>

definition api :: router where
  "api = KoaRestRouter JUndefined"

definition with_cats :: router where
  "with_cats = fst (createResource regular_nouns api (JStr ''cats'') JUndefined JUndefined)"

definition with_cats_twice :: router where
  "with_cats_twice = fst (createResource regular_nouns with_cats (JStr ''cat'') JUndefined JUndefined)"

definition foo_route :: "string \<Rightarrow> route_object" where
  "foo_route p = \<lparr>http_method = ''GET'', route = p, middlewares = [JFn (Middleware 0)]\<rparr>"

definition two_arrays :: router where
  "two_arrays =
     api\<lparr>routes := [foo_route ''/about''],
         heap := [\<lparr>items = [foo_route ''/a''], name = None\<rparr>,
                  \<lparr>items = [foo_route ''/b'', foo_route ''/c''], name = None\<rparr>]\<rparr>"

definition companies :: "route_object list" where
  "companies =
     [\<lparr>http_method = ''GET'', route = ''/companies'', middlewares = [JFn (Middleware 1)]\<rparr>,
      \<lparr>http_method = ''PUT'', route = ''/companies/:company'', middlewares = [JFn (Middleware 2)]\<rparr>]"

definition departments :: "route_object list" where
  "departments =
     [\<lparr>http_method = ''GET'', route = ''/departments'', middlewares = [JFn (Middleware 3)]\<rparr>,
      \<lparr>http_method = ''GET'', route = ''/departments/:department'',
       middlewares = [JFn (Middleware 4), JFn (Middleware 5)]\<rparr>]"

definition users :: "route_object list" where
  "users =
     [\<lparr>http_method = ''POST'', route = ''/users'', middlewares = [JFn (Middleware 6)]\<rparr>,
      \<lparr>http_method = ''DELETE'', route = ''/users/:user'', middlewares = []\<rparr>]"

definition three_arrays :: router where
  "three_arrays =
     api\<lparr>heap := [\<lparr>items = companies, name = Some ''companies''\<rparr>,
                  \<lparr>items = departments, name = Some ''departments''\<rparr>,
                  \<lparr>items = users, name = Some ''users''\<rparr>]\<rparr>"

section \<open>Basic facts\<close>

lemma lookup_append_new:
  "lookup (h @ [obj]) (length h) = Some obj"
  by (simp add: lookup_def)

lemma lookup_fresh:
  "lookup h (length h) = None"
  by (simp add: lookup_def)

lemma mergeOptions_undefined:
  "mergeOptions cfg JUndefined = cfg"
  by (simp add: mergeOptions_def other_props_def)

lemma is_string_conv:
  "is_string v \<longleftrightarrow> (\<exists>s. v = JStr s)"
  by (cases v) simp_all

lemma arg_at_take:
  "i < k \<Longrightarrow> arg_at (take k args) i = arg_at args i"
  by (simp add: arg_at_def)

lemma getResource_loop_find:
  "getResource_loop h ps n = find (has_name h n) ps"
  by (induction ps) (auto simp: has_name_def split: option.splits)

lemma find_after_alloc:
  assumes "\<forall>q\<in>set rs. \<not> has_name h n q" and "name tbl = Some n"
  shows "find (has_name (h @ [tbl]) n) (rs @ [length h]) = Some (length h)"
  using assms
  by (induction rs) (auto simp: has_name_def lookup_def nth_append split: option.splits if_splits)

lemma spread_ArrayRef:
  "lookup h p = Some obj \<Longrightarrow> spread h (ArrayRef p) = items obj"
  by (simp add: spread_def)

lemma concat_spread:
  "list_all2 (\<lambda>p obj. lookup h p = Some obj) ps objs \<Longrightarrow>
   concat (List.map (spread h) (List.map ArrayRef ps)) = concat (List.map items objs)"
  by (induction ps objs rule: list_all2_induct) (simp_all add: spread_ArrayRef)

subsection \<open>The three shapes of the \<open>name\<close> argument\<close>

lemma createResource_object_name:
  assumes "typeof name0 = ''object''"
  shows "createResource infl this name0 ctrl0 opts0 = createResource infl this (JStr ''/'') name0 ctrl0"
  using assms unfolding createResource_def by simp

lemma createResource_other_name:
  assumes "typeof name0 \<noteq> ''object''" and "typeof name0 \<noteq> ''string''"
  shows "createResource infl this name0 ctrl0 opts0 = createResource infl this (JStr ''/'') ctrl0 opts0"
  using assms unfolding createResource_def by (cases name0) simp_all

lemma createResource_normalise:
  "\<exists>n. createResource infl this name0 ctrl0 opts0 =
        createResource infl this (JStr n)
          (if typeof name0 = ''object'' then name0 else ctrl0)
          (if typeof name0 = ''object'' then ctrl0 else opts0)"
proof (cases "typeof name0 = ''object''")
  case True
  then show ?thesis using createResource_object_name[OF True] by auto
next
  case False
  show ?thesis
  proof (cases "typeof name0 = ''string''")
    case True
    then obtain s where "name0 = JStr s" by (cases name0) simp_all
    then show ?thesis using False by auto
  next
    case nostr: False
    show ?thesis using createResource_other_name[OF False nostr] False by auto
  qed
qed

subsection \<open>What a call with a string name does\<close>

text \<open>
  When the merged options give the four request methods, the call returns, and this is
  the router it leaves and the resource it allocates.
\<close>

lemma createResource_string:
  assumes cfg: "cfg = mergeOptions (options this) opts"
    and c: "c = extend defaultController ctrl"
    and g: "entry (methods cfg) ''get'' = JStr g"
    and pu: "entry (methods cfg) ''put'' = JStr pu"
    and po: "entry (methods cfg) ''post'' = JStr po"
    and d: "js_or (entry (methods cfg) ''del'') (entry (methods cfg) ''delete'') = JStr d"
  shows "createResource infl this (JStr n) ctrl opts =
     (this\<lparr>options := cfg,
           resources := resources this @ [length (heap this)],
           heap := heap this @
             [\<lparr>items =
                 [\<lparr>http_method = toUpperCase g, route = r (route_segment infl n) [],
                   middlewares = arrayify (get_prop c (prop_key (entry (map_opt cfg) ''index'')))\<rparr>,
                  \<lparr>http_method = toUpperCase g, route = r (route_segment infl n) [''new''],
                   middlewares = arrayify (get_prop c (prop_key (entry (map_opt cfg) ''new'')))\<rparr>,
                  \<lparr>http_method = toUpperCase po, route = r (route_segment infl n) [],
                   middlewares = arrayify (get_prop c (prop_key (entry (map_opt cfg) ''create'')))\<rparr>,
                  \<lparr>http_method = toUpperCase g, route = r (route_segment infl n) [param_name infl n],
                   middlewares = arrayify (get_prop c (prop_key (entry (map_opt cfg) ''show'')))\<rparr>,
                  \<lparr>http_method = toUpperCase g,
                   route = r (route_segment infl n) [param_name infl n, ''edit''],
                   middlewares = arrayify (get_prop c (prop_key (entry (map_opt cfg) ''edit'')))\<rparr>,
                  \<lparr>http_method = toUpperCase pu, route = r (route_segment infl n) [param_name infl n],
                   middlewares = arrayify (get_prop c (prop_key (entry (map_opt cfg) ''update'')))\<rparr>,
                  \<lparr>http_method = toUpperCase d, route = r (route_segment infl n) [param_name infl n],
                   middlewares = arrayify (get_prop c (prop_key (entry (map_opt cfg) ''remove'')))\<rparr>],
               name = Some (if route_segment infl n = [] then ''/'' else route_segment infl n)\<rparr>]\<rparr>,
      Inr (length (heap this)))"
  using g pu po d unfolding createResource_def cfg c
  by (simp add: createRoute_def alloc_def Let_def)

text \<open>When one of them is missing, \<open>createRoute\<close> throws; the options are merged all the same.\<close>

lemma createResource_throws:
  assumes cfg: "cfg = mergeOptions (options this) opts"
    and "\<not> verbs_configured cfg"
  shows "createResource infl this (JStr n) ctrl opts = (this\<lparr>options := cfg\<rparr>, Inl TypeError)"
  using assms(2) unfolding createResource_def cfg verbs_configured_def
  by (auto simp add: createRoute_def alloc_def Let_def)

lemma createResource_returns:
  assumes "verbs_configured (mergeOptions (options this) (if typeof name0 = ''object'' then ctrl0 else opts0))"
  shows "\<exists>tbl seg par. createResource infl this name0 ctrl0 opts0 =
           (this\<lparr>options := mergeOptions (options this) (if typeof name0 = ''object'' then ctrl0 else opts0),
                 resources := resources this @ [length (heap this)],
                 heap := heap this @ [tbl]\<rparr>, Inr (length (heap this))) \<and>
           length (items tbl) = 7 \<and>
           name tbl = Some (if seg = [] then ''/'' else seg) \<and>
           List.map route (items tbl) =
             [r seg [], r seg [''new''], r seg [], r seg [par], r seg [par, ''edit''],
              r seg [par], r seg [par]]"
proof -
  let ?o = "if typeof name0 = ''object'' then ctrl0 else opts0"
  let ?c = "if typeof name0 = ''object'' then name0 else ctrl0"
  let ?cfg = "mergeOptions (options this) ?o"
  obtain n where n: "createResource infl this name0 ctrl0 opts0 = createResource infl this (JStr n) ?c ?o"
    using createResource_normalise by blast
  from assms obtain g pu po d where
    v: "entry (methods ?cfg) ''get'' = JStr g" "entry (methods ?cfg) ''put'' = JStr pu"
       "entry (methods ?cfg) ''post'' = JStr po"
       "js_or (entry (methods ?cfg) ''del'') (entry (methods ?cfg) ''delete'') = JStr d"
    unfolding verbs_configured_def is_string_conv by auto
  note eq = createResource_string[OF refl refl v, of infl n ?c]
  show ?thesis
    unfolding n eq
    by (rule exI, rule exI[of _ "route_segment infl n"], rule exI[of _ "param_name infl n"],
        intro conjI, rule refl) simp_all
qed

lemma createResource_Inr:
  assumes "createResource infl this name0 ctrl0 opts0 = (this', Inr p)"
  shows "verbs_configured (mergeOptions (options this) (if typeof name0 = ''object'' then ctrl0 else opts0))"
proof (rule ccontr)
  let ?o = "if typeof name0 = ''object'' then ctrl0 else opts0"
  let ?c = "if typeof name0 = ''object'' then name0 else ctrl0"
  assume nv: "\<not> verbs_configured (mergeOptions (options this) ?o)"
  obtain n where n: "createResource infl this name0 ctrl0 opts0 = createResource infl this (JStr n) ?c ?o"
    using createResource_normalise by blast
  show False using assms createResource_throws[OF refl nv, of infl n ?c] unfolding n by simp
qed

lemma verbs_configured_api:
  "verbs_configured (mergeOptions (options api) JUndefined)"
  by (simp add: verbs_configured_def mergeOptions_def api_def KoaRestRouter_def
      defaultRequestMethods_def js_or_def entry_def)

section \<open>Registering routes\<close>

text \<open>
  Claim C8. For arrays of route objects \<open>a\<close> and \<open>b\<close>, \<open>addRoutes(a, b)\<close> leaves
  \<open>routes\<close> as the previous routes followed by all elements of \<open>a\<close> and then all
  elements of \<open>b\<close>, in their order and without deduplication, so its length is the
  previous length plus both lengths. The same holds for any number of arrays, and
  \<open>addResources\<close> does exactly what \<open>addRoutes\<close> does. The resources are not touched.
\<close>

theorem addRoutes_appends_in_order:
  assumes a: "lookup (heap this) pa = Some a"
    and b: "lookup (heap this) pb = Some b"
    and rest: "list_all2 (\<lambda>p obj. lookup (heap this) p = Some obj) ps objs"
  shows "routes (addRoutes this [ArrayRef pa, ArrayRef pb]) = routes this @ items a @ items b \<and>
         length (routes (addRoutes this [ArrayRef pa, ArrayRef pb])) =
           length (routes this) + length (items a) + length (items b) \<and>
         routes (addRoutes this (List.map ArrayRef ps)) = routes this @ concat (List.map items objs) \<and>
         length (routes (addRoutes this (List.map ArrayRef ps))) =
           length (routes this) + sum_list (List.map (\<lambda>obj. length (items obj)) objs) \<and>
         addResources this (List.map ArrayRef ps) = addRoutes this (List.map ArrayRef ps) \<and>
         resources (addRoutes this (List.map ArrayRef ps)) = resources this"
proof -
  have two: "routes (addRoutes this [ArrayRef pa, ArrayRef pb]) = routes this @ items a @ items b"
    using a b by (simp add: addRoutes_def spread_ArrayRef)
  have many: "routes (addRoutes this (List.map ArrayRef ps)) = routes this @ concat (List.map items objs)"
    using concat_spread[OF rest] by (simp add: addRoutes_def)
  have len: "length (concat (List.map items objs)) = sum_list (List.map (\<lambda>obj. length (items obj)) objs)"
    by (simp add: length_concat comp_def)
  show ?thesis
    using two many len by (simp add: addResources_def) (simp add: addRoutes_def)
qed

theorem addRoutes_appends_in_order_witness:
  "lookup (heap two_arrays) 0 = Some \<lparr>items = [foo_route ''/a''], name = None\<rparr> \<and>
   lookup (heap two_arrays) 1 = Some \<lparr>items = [foo_route ''/b'', foo_route ''/c''], name = None\<rparr> \<and>
   routes (addRoutes two_arrays [ArrayRef 0, ArrayRef 1]) =
     [foo_route ''/about'', foo_route ''/a'', foo_route ''/b'', foo_route ''/c''] \<and>
   routes (addRoutes two_arrays [ArrayRef 1, ArrayRef 0, ArrayRef 1]) =
     [foo_route ''/about'', foo_route ''/b'', foo_route ''/c'', foo_route ''/a'',
      foo_route ''/b'', foo_route ''/c'']"
proof -
  let ?a = "\<lparr>items = [foo_route ''/a''], name = None\<rparr>"
  let ?b = "\<lparr>items = [foo_route ''/b'', foo_route ''/c''], name = None\<rparr>"
  have a: "lookup (heap two_arrays) 0 = Some ?a"
    by (simp add: two_arrays_def lookup_def)
  have b: "lookup (heap two_arrays) 1 = Some ?b"
    by (simp add: two_arrays_def lookup_def)
  have rest: "list_all2 (\<lambda>p obj. lookup (heap two_arrays) p = Some obj) [1, 0, 1] [?b, ?a, ?b]"
    using a b by simp
  have rts: "routes two_arrays = [foo_route ''/about'']"
    by (simp add: two_arrays_def)
  show ?thesis
    using addRoutes_appends_in_order[OF a b rest] a b rts by simp
qed

section \<open>Looking a resource up\<close>

text \<open>
  Claim C9. \<open>getResource(name)\<close> scans the resources in creation order. It returns
  \<open>null\<close> exactly when no resource carries the name, and otherwise the reference of
  the first resource that does. The reference is the one \<open>createResource\<close> returned:
  after a call that created a resource with a name no earlier resource carries,
  \<open>getResource\<close> of that name is the very reference the call returned.
\<close>

theorem getResource_first_by_reference:
  "(getResource this n = None \<longleftrightarrow> (\<forall>p \<in> set (resources this). \<not> has_name (heap this) n p)) \<and>
   (getResource this n = Some p \<longleftrightarrow>
      (\<exists>i < length (resources this). resources this ! i = p \<and> has_name (heap this) n p \<and>
         (\<forall>j < i. \<not> has_name (heap this) n (resources this ! j)))) \<and>
   (createResource infl this name0 ctrl0 opts0 = (this', Inr q) \<and>
    lookup (heap this') q = Some tbl \<and> name tbl = Some n \<and> getResource this n = None
      \<longrightarrow> getResource this' n = Some q)"
proof (intro conjI impI)
  show "getResource this n = None \<longleftrightarrow> (\<forall>p \<in> set (resources this). \<not> has_name (heap this) n p)"
    by (auto simp: getResource_def getResource_loop_find find_None_iff)
next
  show "getResource this n = Some p \<longleftrightarrow>
      (\<exists>i < length (resources this). resources this ! i = p \<and> has_name (heap this) n p \<and>
         (\<forall>j < i. \<not> has_name (heap this) n (resources this ! j)))"
    unfolding getResource_def getResource_loop_find find_Some_iff by auto
next
  assume h: "createResource infl this name0 ctrl0 opts0 = (this', Inr q) \<and>
    lookup (heap this') q = Some tbl \<and> name tbl = Some n \<and> getResource this n = None"
  then have cr: "createResource infl this name0 ctrl0 opts0 = (this', Inr q)" by simp
  from createResource_returns[OF createResource_Inr[OF cr], of infl] cr
  obtain tbl' where q: "q = length (heap this)"
    and hp: "heap this' = heap this @ [tbl']"
    and rs: "resources this' = resources this @ [length (heap this)]"
    by auto
  from h q hp have "tbl' = tbl" by (simp add: lookup_def)
  moreover from h have "\<forall>p\<in>set (resources this). \<not> has_name (heap this) n p"
    by (auto simp: getResource_def getResource_loop_find find_None_iff)
  ultimately show "getResource this' n = Some q"
    using h find_after_alloc[of "resources this" "heap this" n tbl]
    by (simp add: getResource_def getResource_loop_find hp rs q)
qed

theorem getResource_first_by_reference_witness:
  "createResource regular_nouns api (JStr ''cats'') JUndefined JUndefined = (with_cats, Inr 0) \<and>
   lookup (heap with_cats) 0 = Some (heap with_cats ! 0) \<and>
   name (heap with_cats ! 0) = Some ''cats'' \<and>
   getResource api ''cats'' = None \<and>
   getResource with_cats ''cats'' = Some 0 \<and>
   resources with_cats_twice = [0, 1] \<and>
   has_name (heap with_cats_twice) ''cats'' 0 \<and>
   has_name (heap with_cats_twice) ''cats'' 1 \<and>
   getResource with_cats_twice ''cats'' = Some 0 \<and>
   getResource with_cats_twice ''dogs'' = None"
proof -
  have cr: "createResource regular_nouns api (JStr ''cats'') JUndefined JUndefined = (with_cats, Inr 0)"
    by code_simp
  have lk: "lookup (heap with_cats) 0 = Some (heap with_cats ! 0)"
    by code_simp
  have nm: "name (heap with_cats ! 0) = Some ''cats''"
    by code_simp
  have none: "getResource api ''cats'' = None"
    by code_simp
  have twice: "resources with_cats_twice = [0, 1]"
    "has_name (heap with_cats_twice) ''cats'' 0" "has_name (heap with_cats_twice) ''cats'' 1"
    "getResource with_cats_twice ''dogs'' = None"
    by code_simp+
  have first: "getResource with_cats_twice ''cats'' = Some 0"
  proof -
    have "\<exists>i < length (resources with_cats_twice). resources with_cats_twice ! i = 0 \<and>
            has_name (heap with_cats_twice) ''cats'' 0 \<and>
            (\<forall>j < i. \<not> has_name (heap with_cats_twice) ''cats'' (resources with_cats_twice ! j))"
      using twice by (intro exI[of _ 0]) simp
    then show ?thesis
      by (rule getResource_first_by_reference[of with_cats_twice "''cats''" 0,
            THEN conjunct2, THEN conjunct1, THEN iffD2])
  qed
  from getResource_first_by_reference[of api "''cats''" 0 regular_nouns "JStr ''cats''"
      JUndefined JUndefined with_cats 0 "heap with_cats ! 0"] cr lk nm none
  have "getResource with_cats ''cats'' = Some 0" by blast
  with cr lk nm none twice first show ?thesis by (intro conjI)
qed

section \<open>Grouping reads four sources\<close>

text \<open>
  Claim C10. \<open>group\<close> consults at most its first four source arguments: whatever
  the destination and however many sources the call passes, the router it leaves and the
  result it returns are those of the call with the first four sources only.
\<close>

theorem group_first_four_sources:
  "group this dest srcs = group this dest (take 4 srcs)"
  unfolding group_def by (simp add: arg_at_take)

section \<open>The seven routes of a resource\<close>

lemma upper_GET: "toUpperCase ''GET'' = ''GET''" by code_simp
lemma upper_PUT: "toUpperCase ''PUT'' = ''PUT''" by code_simp
lemma upper_POST: "toUpperCase ''POST'' = ''POST''" by code_simp
lemma upper_DELETE: "toUpperCase ''DELETE'' = ''DELETE''" by code_simp
lemma upper_post: "toUpperCase ''post'' = ''POST''" by code_simp

lemma param_name_nonempty: "param_name infl n \<noteq> []"
  by (simp add: param_name_def Let_def)

lemma r_root:
  "r [] [] = ''/''" "r [] [''new''] = ''/new''"
  "par \<noteq> [] \<Longrightarrow> r [] [par] = ''/'' @ par"
  "par \<noteq> [] \<Longrightarrow> r [] [par, ''edit''] = ''/'' @ par @ ''/edit''"
  by (simp_all add: r_def)

lemma r_segment:
  "seg \<noteq> [] \<Longrightarrow> r seg [] = ''/'' @ seg"
  "seg \<noteq> [] \<Longrightarrow> r seg [''new''] = ''/'' @ seg @ ''/new''"
  "seg \<noteq> [] \<Longrightarrow> par \<noteq> [] \<Longrightarrow> r seg [par] = ''/'' @ seg @ ''/'' @ par"
  "seg \<noteq> [] \<Longrightarrow> par \<noteq> [] \<Longrightarrow> r seg [par, ''edit''] = ''/'' @ seg @ ''/'' @ par @ ''/edit''"
  by (simp_all add: r_def)

lemma default_verbs:
  assumes "methods (options this) = defaultRequestMethods \<and>
           map_opt (options this) = defaultControllerMap"
  shows "entry (methods (mergeOptions (options this) JUndefined)) ''get'' = JStr ''GET''"
    "entry (methods (mergeOptions (options this) JUndefined)) ''put'' = JStr ''PUT''"
    "entry (methods (mergeOptions (options this) JUndefined)) ''post'' = JStr ''POST''"
    "js_or (entry (methods (mergeOptions (options this) JUndefined)) ''del'')
           (entry (methods (mergeOptions (options this) JUndefined)) ''delete'') = JStr ''DELETE''"
    "List.map (\<lambda>a. prop_key (entry (map_opt (mergeOptions (options this) JUndefined)) a)) actions = actions"
  using assms
  by (simp_all add: mergeOptions_def defaultRequestMethods_def defaultControllerMap_def js_or_def
      entry_def actions_def)

text \<open>
  Claim C1. Under the default configuration, \<open>createResource(n)\<close> returns, for
  every name \<open>n\<close> and every controller, a resource of exactly seven route objects.
  Their handlers are those of the actions index, new, create, show, edit, update, remove
  in this order, their verbs are GET, GET, POST, GET, GET, PUT, DELETE, and their paths
  are \<open>/{route}\<close>, \<open>/{route}/new\<close>, \<open>/{route}\<close>, \<open>/{route}/{param}\<close>,
  \<open>/{route}/{param}/edit\<close>, \<open>/{route}/{param}\<close>, \<open>/{route}/{param}\<close>, where an
  empty route segment is left out; for the root resource they are \<open>/\<close>, \<open>/new\<close>,
  \<open>/\<close>, \<open>/:id\<close>, \<open>/:id/edit\<close>, \<open>/:id\<close>, \<open>/:id\<close>.
\<close>

theorem createResource_seven_routes:
  assumes dflt: "methods (options this) = defaultRequestMethods \<and>
                 map_opt (options this) = defaultControllerMap"
  shows "(\<exists>this' p tbl.
            createResource infl this (JStr n) ctrl JUndefined = (this', Inr p) \<and>
            lookup (heap this') p = Some tbl \<and>
            length (items tbl) = 7 \<and>
            List.map http_method (items tbl) =
              [''GET'', ''GET'', ''POST'', ''GET'', ''GET'', ''PUT'', ''DELETE''] \<and>
            List.map middlewares (items tbl) =
              List.map (\<lambda>a. arrayify (get_prop (extend defaultController ctrl) a)) actions \<and>
            List.map route (items tbl) =
              (let seg = route_segment infl n; par = param_name infl n
               in if seg = []
                  then [''/'', ''/new'', ''/'', ''/'' @ par, ''/'' @ par @ ''/edit'', ''/'' @ par, ''/'' @ par]
                  else [''/'' @ seg, ''/'' @ seg @ ''/new'', ''/'' @ seg, ''/'' @ seg @ ''/'' @ par,
                        ''/'' @ seg @ ''/'' @ par @ ''/edit'', ''/'' @ seg @ ''/'' @ par,
                        ''/'' @ seg @ ''/'' @ par])) \<and>
         (\<exists>this' p tbl.
            createResource infl this (JStr ''/'') ctrl JUndefined = (this', Inr p) \<and>
            lookup (heap this') p = Some tbl \<and>
            List.map route (items tbl) =
              [''/'', ''/new'', ''/'', ''/:id'', ''/:id/edit'', ''/:id'', ''/:id''])"
proof -
  note v = default_verbs[OF dflt]
  have keys: "prop_key (entry (map_opt (mergeOptions (options this) JUndefined)) ''index'') = ''index''"
    "prop_key (entry (map_opt (mergeOptions (options this) JUndefined)) ''new'') = ''new''"
    "prop_key (entry (map_opt (mergeOptions (options this) JUndefined)) ''create'') = ''create''"
    "prop_key (entry (map_opt (mergeOptions (options this) JUndefined)) ''show'') = ''show''"
    "prop_key (entry (map_opt (mergeOptions (options this) JUndefined)) ''edit'') = ''edit''"
    "prop_key (entry (map_opt (mergeOptions (options this) JUndefined)) ''update'') = ''update''"
    "prop_key (entry (map_opt (mergeOptions (options this) JUndefined)) ''remove'') = ''remove''"
    using v(5) by (simp_all add: actions_def)
  note up = upper_GET upper_PUT upper_POST upper_DELETE
  have eq: "\<And>m. createResource infl this (JStr m) ctrl JUndefined = 
     (this\<lparr>options := mergeOptions (options this) JUndefined,
           resources := resources this @ [length (heap this)],
           heap := heap this @
             [\<lparr>items =
                 [\<lparr>http_method = ''GET'', route = r (route_segment infl m) [],
                   middlewares = arrayify (get_prop (extend defaultController ctrl) ''index'')\<rparr>,
                  \<lparr>http_method = ''GET'', route = r (route_segment infl m) [''new''],
                   middlewares = arrayify (get_prop (extend defaultController ctrl) ''new'')\<rparr>,
                  \<lparr>http_method = ''POST'', route = r (route_segment infl m) [],
                   middlewares = arrayify (get_prop (extend defaultController ctrl) ''create'')\<rparr>,
                  \<lparr>http_method = ''GET'', route = r (route_segment infl m) [param_name infl m],
                   middlewares = arrayify (get_prop (extend defaultController ctrl) ''show'')\<rparr>,
                  \<lparr>http_method = ''GET'',
                   route = r (route_segment infl m) [param_name infl m, ''edit''],
                   middlewares = arrayify (get_prop (extend defaultController ctrl) ''edit'')\<rparr>,
                  \<lparr>http_method = ''PUT'', route = r (route_segment infl m) [param_name infl m],
                   middlewares = arrayify (get_prop (extend defaultController ctrl) ''update'')\<rparr>,
                  \<lparr>http_method = ''DELETE'', route = r (route_segment infl m) [param_name infl m],
                   middlewares = arrayify (get_prop (extend defaultController ctrl) ''remove'')\<rparr>],
               name = Some (if route_segment infl m = [] then ''/'' else route_segment infl m)\<rparr>]\<rparr>,
      Inr (length (heap this)))"
    by (simp only: createResource_string[OF refl refl v(1) v(2) v(3) v(4)] keys up)
  have first: "\<exists>this' p tbl.
            createResource infl this (JStr n) ctrl JUndefined = (this', Inr p) \<and>
            lookup (heap this') p = Some tbl \<and>
            length (items tbl) = 7 \<and>
            List.map http_method (items tbl) =
              [''GET'', ''GET'', ''POST'', ''GET'', ''GET'', ''PUT'', ''DELETE''] \<and>
            List.map middlewares (items tbl) =
              List.map (\<lambda>a. arrayify (get_prop (extend defaultController ctrl) a)) actions \<and>
            List.map route (items tbl) =
              (let seg = route_segment infl n; par = param_name infl n
               in if seg = []
                  then [''/'', ''/new'', ''/'', ''/'' @ par, ''/'' @ par @ ''/edit'', ''/'' @ par, ''/'' @ par]
                  else [''/'' @ seg, ''/'' @ seg @ ''/new'', ''/'' @ seg, ''/'' @ seg @ ''/'' @ par,
                        ''/'' @ seg @ ''/'' @ par @ ''/edit'', ''/'' @ seg @ ''/'' @ par,
                        ''/'' @ seg @ ''/'' @ par])"
    unfolding eq
    apply (intro exI conjI, rule refl)
        apply (simp add: lookup_append_new)
       apply simp
      apply simp
     apply (simp add: actions_def)
    apply (simp add: Let_def r_root r_segment param_name_nonempty)
    done
  have root: "route_segment infl ''/'' = []" "param_name infl ''/'' = '':id''"
    by (simp_all add: route_segment_def param_name_def)
  have second: "\<exists>this' p tbl.
            createResource infl this (JStr ''/'') ctrl JUndefined = (this', Inr p) \<and>
            lookup (heap this') p = Some tbl \<and>
            List.map route (items tbl) =
              [''/'', ''/new'', ''/'', ''/:id'', ''/:id/edit'', ''/:id'', ''/:id'']"
    unfolding eq root
    apply (intro exI conjI, rule refl)
     apply (simp add: lookup_append_new)
    apply (simp add: r_def)
    done
  from first second show ?thesis by blast
qed


theorem createResource_seven_routes_witness:
  "methods (options api) = defaultRequestMethods \<and>
   map_opt (options api) = defaultControllerMap \<and>
   (\<exists>this' p tbl.
      createResource regular_nouns api (JStr ''cats'') (JObj [(''show'', JFn (Middleware 1))]) JUndefined
        = (this', Inr p) \<and>
      lookup (heap this') p = Some tbl \<and>
      List.map http_method (items tbl) =
        [''GET'', ''GET'', ''POST'', ''GET'', ''GET'', ''PUT'', ''DELETE''] \<and>
      List.map middlewares (items tbl) =
        [[JFn notImplemented], [JFn notImplemented], [JFn notImplemented], [JFn (Middleware 1)],
         [JFn notImplemented], [JFn notImplemented], [JFn notImplemented]] \<and>
      List.map route (items tbl) =
        [''/cats'', ''/cats/new'', ''/cats'', ''/cats/:cat'', ''/cats/:cat/edit'', ''/cats/:cat'',
         ''/cats/:cat''])"
proof -
  have dflt: "methods (options api) = defaultRequestMethods \<and>
              map_opt (options api) = defaultControllerMap"
    by (simp add: api_def KoaRestRouter_def mergeOptions_def)
  have seg: "route_segment regular_nouns ''cats'' = ''cats''"
    by (simp add: route_segment_def regular_nouns_def ends_with_s_def)
  have par: "param_name regular_nouns ''cats'' = '':cat''"
    by (simp add: param_name_def regular_nouns_def ends_with_s_def)
  have mw: "List.map (\<lambda>a. arrayify (get_prop (extend defaultController (JObj [(''show'', JFn (Middleware 1))])) a)) actions =
        [[JFn notImplemented], [JFn notImplemented], [JFn notImplemented], [JFn (Middleware 1)],
         [JFn notImplemented], [JFn notImplemented], [JFn notImplemented]]"
    by (simp add: extend_def defaultController_def actions_def)
  from createResource_seven_routes[OF dflt, of regular_nouns "''cats''" "JObj [(''show'', JFn (Middleware 1))]"]
  show ?thesis
    unfolding seg par mw using dflt
    by (simp add: Let_def) (elim conjE exE, (intro exI conjI; assumption))
qed

section \<open>What a resource creation registers\<close>

text \<open>
  Claim C4. A call to \<open>createResource\<close> whose merged options give the request
  methods returns a new resource object of seven route objects, tagged with the route
  segment, or with \<open>/\<close> when the segment is empty; it appends that reference to
  \<open>resources\<close> and leaves \<open>routes\<close> and every older array as they were. The same
  call to \<open>resource\<close> appends exactly these seven route objects to \<open>routes\<close> and
  exactly one resource to \<open>resources\<close>.
\<close>

theorem createResource_registers_resource:
  assumes cfg: "verbs_configured
                  (mergeOptions (options this) (if typeof name0 = ''object'' then ctrl0 else opts0))"
  shows "\<exists>this' p tbl seg par this''.
           createResource infl this name0 ctrl0 opts0 = (this', Inr p) \<and>
           lookup (heap this) p = None \<and>
           lookup (heap this') p = Some tbl \<and>
           take (length (heap this)) (heap this') = heap this \<and>
           resources this' = resources this @ [p] \<and>
           routes this' = routes this \<and>
           length (items tbl) = 7 \<and>
           name tbl = Some (if seg = [] then ''/'' else seg) \<and>
           List.map route (items tbl) =
             [r seg [], r seg [''new''], r seg [], r seg [par], r seg [par, ''edit''],
              r seg [par], r seg [par]] \<and>
           resource infl this name0 ctrl0 opts0 = (this'', Inr ()) \<and>
           routes this'' = routes this @ items tbl \<and>
           length (routes this'') = length (routes this) + 7 \<and>
           resources this'' = resources this @ [p] \<and>
           length (resources this'') = length (resources this) + 1"
proof -
  from createResource_returns[OF cfg, of infl]
  obtain tbl seg par where
    cr: "createResource infl this name0 ctrl0 opts0 =
           (this\<lparr>options := mergeOptions (options this) (if typeof name0 = ''object'' then ctrl0 else opts0),
                 resources := resources this @ [length (heap this)],
                 heap := heap this @ [tbl]\<rparr>, Inr (length (heap this)))"
    and len: "length (items tbl) = 7"
    and nm: "name tbl = Some (if seg = [] then ''/'' else seg)"
    and rts: "List.map route (items tbl) =
             [r seg [], r seg [''new''], r seg [], r seg [par], r seg [par, ''edit''],
              r seg [par], r seg [par]]"
    by (elim exE conjE) (rule that)
  let ?this' = "this\<lparr>options := mergeOptions (options this) (if typeof name0 = ''object'' then ctrl0 else opts0),
                 resources := resources this @ [length (heap this)],
                 heap := heap this @ [tbl]\<rparr>"
  have rs: "resource infl this name0 ctrl0 opts0 = (addResource ?this' (ArrayRef (length (heap this))), Inr ())"
    by (simp add: resource_def cr)
  have r2: "routes (addResource ?this' (ArrayRef (length (heap this)))) = routes this @ items tbl"
    by (simp add: addResource_def addRoutes_def spread_def lookup_append_new)
  have r3: "resources (addResource ?this' (ArrayRef (length (heap this)))) = resources this @ [length (heap this)]"
    by (simp add: addResource_def addRoutes_def)
  show ?thesis
    apply (rule exI[of _ ?this'], rule exI[of _ "length (heap this)"], rule exI[of _ tbl],
        rule exI[of _ seg], rule exI[of _ par],
        rule exI[of _ "addResource ?this' (ArrayRef (length (heap this)))"])
    apply (simp only: cr rs r2 r3 len nm rts lookup_fresh)
    apply (simp add: lookup_append_new len)
    done
qed

theorem createResource_registers_resource_witness:
  "verbs_configured (mergeOptions (options api) JUndefined) \<and>
   (\<exists>this' p tbl this''.
      createResource regular_nouns api (JStr ''cats'') JUndefined JUndefined = (this', Inr p) \<and>
      lookup (heap this') p = Some tbl \<and>
      resources this' = [p] \<and> routes this' = [] \<and> length (items tbl) = 7 \<and>
      resource regular_nouns api (JStr ''cats'') JUndefined JUndefined = (this'', Inr ()) \<and>
      routes this'' = items tbl \<and> length (routes this'') = 7 \<and> length (resources this'') = 1)"
proof -
  have e: "resources api = []" "routes api = []"
    by (simp_all add: api_def KoaRestRouter_def)
  have v: "verbs_configured (mergeOptions (options api)
             (if typeof (JStr ''cats'') = ''object'' then JUndefined else JUndefined))"
    using verbs_configured_api by simp
  from createResource_registers_resource[OF v, of regular_nouns] verbs_configured_api
  show ?thesis
    unfolding e by (simp) (elim conjE exE, (intro exI conjI; assumption))
qed

section \<open>Verbs and controller keys come from the options\<close>

lemma createResource_string_table:
  assumes cfg: "cfg = mergeOptions (options this) opts"
    and v: "verbs_configured cfg"
  shows "\<exists>this' p tbl g pu po d.
      createResource infl this (JStr n) ctrl opts = (this', Inr p) \<and>
      lookup (heap this') p = Some tbl \<and>
      options this' = cfg \<and>
      entry (methods cfg) ''get'' = JStr g \<and>
      entry (methods cfg) ''put'' = JStr pu \<and>
      entry (methods cfg) ''post'' = JStr po \<and>
      js_or (entry (methods cfg) ''del'') (entry (methods cfg) ''delete'') = JStr d \<and>
      List.map http_method (items tbl) = List.map toUpperCase [g, g, po, g, g, pu, d] \<and>
      List.map middlewares (items tbl) =
        List.map (\<lambda>a. arrayify (get_prop (extend defaultController ctrl)
                                   (prop_key (entry (map_opt cfg) a)))) actions"
proof -
  from v obtain g pu po d where
    vs: "entry (methods cfg) ''get'' = JStr g" "entry (methods cfg) ''put'' = JStr pu"
       "entry (methods cfg) ''post'' = JStr po"
       "js_or (entry (methods cfg) ''del'') (entry (methods cfg) ''delete'') = JStr d"
    unfolding verbs_configured_def is_string_conv by auto
  note eq = createResource_string[OF cfg refl vs, of infl n ctrl]
  show ?thesis
    unfolding eq
    apply (rule exI, rule exI, rule exI, rule exI[of _ g], rule exI[of _ pu], rule exI[of _ po],
        rule exI[of _ d], intro conjI, rule refl)
           apply (simp add: lookup_append_new)
          apply simp
         apply (rule vs)+
     apply simp
    apply (simp add: actions_def)
    done
qed

text \<open>
  Claim C5. For each of the seven actions \<open>createResource\<close> takes the verb from the
  merged options' \<open>methods\<close>: \<open>get\<close> for index, new, show and edit, \<open>post\<close> for
  create, \<open>put\<close> for update, and for remove \<open>del\<close> when it is set (truthy: a
  non-empty string) and \<open>delete\<close> otherwise. The handlers of an action are
  \<open>controller[map[action]]\<close>, where the controller is the supplied one laid over the
  default one. The base router stores the verb in upper case.
\<close>

theorem createResource_resolves_verbs_and_keys:
  assumes cfg: "cfg = mergeOptions (options this) opts"
    and v: "verbs_configured cfg"
  shows "\<exists>this' p tbl g pu po d.
      createResource infl this (JStr n) ctrl opts = (this', Inr p) \<and>
      lookup (heap this') p = Some tbl \<and>
      entry (methods cfg) ''get'' = JStr g \<and>
      entry (methods cfg) ''put'' = JStr pu \<and>
      entry (methods cfg) ''post'' = JStr po \<and>
      (if truthy (entry (methods cfg) ''del'') then entry (methods cfg) ''del''
       else entry (methods cfg) ''delete'') = JStr d \<and>
      List.map http_method (items tbl) = List.map toUpperCase [g, g, po, g, g, pu, d] \<and>
      List.map middlewares (items tbl) =
        List.map (\<lambda>a. arrayify (get_prop (extend defaultController ctrl)
                                   (prop_key (entry (map_opt cfg) a)))) actions"
  using createResource_string_table[OF cfg v, of infl n ctrl]
  unfolding js_or_def by - (elim conjE exE, (intro exI conjI; assumption))

theorem createResource_resolves_verbs_and_keys_witness:
  "verbs_configured
     (mergeOptions (options api)
        (JObj [(''methods'', JObj [(''put'', JStr ''post'')]),
               (''map'', JObj [(''index'', JStr ''list'')])])) \<and>
   (\<exists>this' p tbl.
      createResource regular_nouns api (JStr ''cats'')
        (JObj [(''list'', JFn (Middleware 1)), (''index'', JFn (Middleware 2))])
        (JObj [(''methods'', JObj [(''put'', JStr ''post'')]),
               (''map'', JObj [(''index'', JStr ''list'')])]) = (this', Inr p) \<and>
      lookup (heap this') p = Some tbl \<and>
      List.map http_method (items tbl) =
        [''GET'', ''GET'', ''POST'', ''GET'', ''GET'', ''POST'', ''DELETE''] \<and>
      List.map middlewares (items tbl) =
        [[JFn (Middleware 1)], [JFn notImplemented], [JFn notImplemented], [JFn notImplemented],
         [JFn notImplemented], [JFn notImplemented], [JFn notImplemented]])"
proof -
  let ?o = "JObj [(''methods'', JObj [(''put'', JStr ''post'')]),
               (''map'', JObj [(''index'', JStr ''list'')])]"
  let ?c = "JObj [(''list'', JFn (Middleware 1)), (''index'', JFn (Middleware 2))]"
  let ?cfg = "mergeOptions (options api) ?o"
  have v: "verbs_configured ?cfg"
    by (simp add: verbs_configured_def mergeOptions_def api_def KoaRestRouter_def
      defaultRequestMethods_def js_or_def entry_def)
  have ms: "entry (methods ?cfg) ''get'' = JStr ''GET''" "entry (methods ?cfg) ''put'' = JStr ''post''"
    "entry (methods ?cfg) ''post'' = JStr ''POST''"
    "(if truthy (entry (methods ?cfg) ''del'') then entry (methods ?cfg) ''del''
       else entry (methods ?cfg) ''delete'') = JStr ''DELETE''"
    by (simp_all add: mergeOptions_def api_def KoaRestRouter_def defaultRequestMethods_def entry_def)
  have mw: "List.map (\<lambda>a. arrayify (get_prop (extend defaultController ?c)
               (prop_key (entry (map_opt ?cfg) a)))) actions =
        [[JFn (Middleware 1)], [JFn notImplemented], [JFn notImplemented], [JFn notImplemented],
         [JFn notImplemented], [JFn notImplemented], [JFn notImplemented]]"
    by (simp add: mergeOptions_def api_def KoaRestRouter_def defaultControllerMap_def
        extend_def defaultController_def actions_def entry_def)
  from createResource_resolves_verbs_and_keys[OF refl v, of regular_nouns "''cats''" ?c]
  obtain this' p tbl g pu po d where
    cr: "createResource regular_nouns api (JStr ''cats'') ?c ?o = (this', Inr p)"
    and lk: "lookup (heap this') p = Some tbl"
    and vs: "entry (methods ?cfg) ''get'' = JStr g" "entry (methods ?cfg) ''put'' = JStr pu"
      "entry (methods ?cfg) ''post'' = JStr po"
      "(if truthy (entry (methods ?cfg) ''del'') then entry (methods ?cfg) ''del''
       else entry (methods ?cfg) ''delete'') = JStr d"
    and hm: "List.map http_method (items tbl) = List.map toUpperCase [g, g, po, g, g, pu, d]"
    and hw: "List.map middlewares (items tbl) =
        List.map (\<lambda>a. arrayify (get_prop (extend defaultController ?c)
                                   (prop_key (entry (map_opt ?cfg) a)))) actions"
    by (elim exE conjE) (rule that)
  from vs ms have "g = ''GET''" "pu = ''post''" "po = ''POST''" "d = ''DELETE''"
    by simp_all
  with hm have hm': "List.map http_method (items tbl) =
        [''GET'', ''GET'', ''POST'', ''GET'', ''GET'', ''POST'', ''DELETE'']"
    by (simp add: upper_GET upper_POST upper_DELETE upper_post)
  from cr lk hm' hw[unfolded mw] have "\<exists>this' p tbl.
      createResource regular_nouns api (JStr ''cats'') ?c ?o = (this', Inr p) \<and>
      lookup (heap this') p = Some tbl \<and>
      List.map http_method (items tbl) =
        [''GET'', ''GET'', ''POST'', ''GET'', ''GET'', ''POST'', ''DELETE''] \<and>
      List.map middlewares (items tbl) =
        [[JFn (Middleware 1)], [JFn notImplemented], [JFn notImplemented], [JFn notImplemented],
         [JFn notImplemented], [JFn notImplemented], [JFn notImplemented]]"
    by (intro exI conjI)
  with v show ?thesis by (intro conjI)
qed

section \<open>The options persist\<close>

lemma createResource_options:
  "options (fst (createResource infl this name0 ctrl0 opts0)) =
     mergeOptions (options this) (if typeof name0 = ''object'' then ctrl0 else opts0)"
proof -
  let ?o = "if typeof name0 = ''object'' then ctrl0 else opts0"
  let ?c = "if typeof name0 = ''object'' then name0 else ctrl0"
  obtain n where n: "createResource infl this name0 ctrl0 opts0 = createResource infl this (JStr n) ?c ?o"
    using createResource_normalise by blast
  show ?thesis
  proof (cases "verbs_configured (mergeOptions (options this) ?o)")
    case True
    from createResource_returns[OF True, of infl] show ?thesis by auto
  next
    case False
    show ?thesis unfolding n createResource_throws[OF refl False] by simp
  qed
qed

lemma map_of_filter_keys:
  "P k \<Longrightarrow> map_of (filter (\<lambda>(k, v). P k) kvs) k = map_of kvs k"
  by (induction kvs) auto

lemma map_of_other_props:
  "k \<noteq> ''methods'' \<Longrightarrow> k \<noteq> ''map'' \<Longrightarrow> map_of (other_props opts) k = map_of (props opts) k"
  unfolding other_props_def
  using map_of_filter_keys[of "\<lambda>k. k \<noteq> ''methods'' \<and> k \<noteq> ''map''" k "props opts"] by simp

lemma entry_append:
  "entry (xs @ ys) k = (case map_of xs k of Some v \<Rightarrow> v | None \<Rightarrow> entry ys k)"
  by (simp add: entry_def map_add_def split: option.splits)

text \<open>
  The claim as the specification states it fails: a key of the overrides other than
  \<open>methods\<close> and \<open>map\<close> is kept as well. A router made without a prefix has the
  prefix of one call's overrides after that call, and still after a later call that
  passes no overrides.
\<close>

theorem options_retain_other_keys_counterexample:
  "entry (others (options api)) ''prefix'' = JUndefined \<and>
   entry (others (options (fst (createResource regular_nouns api (JStr ''cats'') JUndefined
                                   (JObj [(''prefix'', JStr ''/api'')]))))) ''prefix'' =
     JStr ''/api'' \<and>
   entry (others (options (fst (createResource regular_nouns
                                   (fst (createResource regular_nouns api (JStr ''cats'') JUndefined
                                           (JObj [(''prefix'', JStr ''/api'')])))
                                   (JStr ''dogs'') JUndefined JUndefined)))) ''prefix'' =
     JStr ''/api''"
  by code_simp

text \<open>
  Claim C6, amended. Every call to \<open>createResource\<close> assigns to the router's options
  the merge of the call's overrides into them, whether or not the call returns. In the
  merged options an entry of the overrides' \<open>methods\<close> or \<open>map\<close> wins over the entry
  the router had for the same key and every other entry of the two stays; every other
  key of the overrides is kept too and wins over the router's entry for it. The merged
  options are those every later call starts from: a later call without overrides leaves
  exactly them.
\<close>

theorem createResource_merges_options:
  "options (fst (createResource infl this name0 ctrl0 opts0)) =
     mergeOptions (options this) (if typeof name0 = ''object'' then ctrl0 else opts0) \<and>
   entry (methods (mergeOptions cfg opts)) k =
     (case map_of (props (get_prop opts ''methods'')) k of
        Some v \<Rightarrow> v
      | None \<Rightarrow> entry (methods cfg) k) \<and>
   entry (map_opt (mergeOptions cfg opts)) k =
     (case map_of (props (get_prop opts ''map'')) k of
        Some v \<Rightarrow> v
      | None \<Rightarrow> entry (map_opt cfg) k) \<and>
   (k \<noteq> ''methods'' \<and> k \<noteq> ''map'' \<longrightarrow>
      entry (others (mergeOptions cfg opts)) k =
        (case map_of (props opts) k of
           Some v \<Rightarrow> v
         | None \<Rightarrow> entry (others cfg) k)) \<and>
   options (fst (createResource infl (fst (createResource infl this name0 ctrl0 opts0))
              (JStr n) ctrl JUndefined)) =
     options (fst (createResource infl this name0 ctrl0 opts0))"
proof (intro conjI impI)
  show "options (fst (createResource infl this name0 ctrl0 opts0)) =
     mergeOptions (options this) (if typeof name0 = ''object'' then ctrl0 else opts0)"
    by (rule createResource_options)
next
  show "entry (methods (mergeOptions cfg opts)) k =
     (case map_of (props (get_prop opts ''methods'')) k of
        Some v \<Rightarrow> v
      | None \<Rightarrow> entry (methods cfg) k)"
    by (simp add: mergeOptions_def entry_append)
next
  show "entry (map_opt (mergeOptions cfg opts)) k =
     (case map_of (props (get_prop opts ''map'')) k of
        Some v \<Rightarrow> v
      | None \<Rightarrow> entry (map_opt cfg) k)"
    by (simp add: mergeOptions_def entry_append)
next
  assume "k \<noteq> ''methods'' \<and> k \<noteq> ''map''"
  then show "entry (others (mergeOptions cfg opts)) k =
        (case map_of (props opts) k of
           Some v \<Rightarrow> v
         | None \<Rightarrow> entry (others cfg) k)"
    by (simp add: mergeOptions_def entry_append map_of_other_props)
next
  show "options (fst (createResource infl (fst (createResource infl this name0 ctrl0 opts0))
              (JStr n) ctrl JUndefined)) =
     options (fst (createResource infl this name0 ctrl0 opts0))"
    by (simp add: createResource_options mergeOptions_undefined)
qed

theorem createResource_merges_options_witness:
  "''prefix'' \<noteq> ''methods'' \<and> ''prefix'' \<noteq> ''map'' \<and>
   entry (others (options (fst (createResource regular_nouns api (JStr ''cats'') JUndefined
       (JObj [(''prefix'', JStr ''/api''), (''methods'', JObj [(''put'', JStr ''post'')])])))))
     ''prefix'' = JStr ''/api'' \<and>
   entry (methods (options (fst (createResource regular_nouns api (JStr ''cats'') JUndefined
       (JObj [(''prefix'', JStr ''/api''), (''methods'', JObj [(''put'', JStr ''post'')])])))))
     ''put'' = JStr ''post'' \<and>
   entry (methods (options (fst (createResource regular_nouns api (JStr ''cats'') JUndefined
       (JObj [(''prefix'', JStr ''/api''), (''methods'', JObj [(''put'', JStr ''post'')])])))))
     ''get'' = JStr ''GET''"
proof -
  let ?o = "JObj [(''prefix'', JStr ''/api''), (''methods'', JObj [(''put'', JStr ''post'')])]"
  have g: "entry (methods (options api)) ''get'' = JStr ''GET''"
    by (simp add: api_def KoaRestRouter_def mergeOptions_def defaultRequestMethods_def entry_def)
  note t = createResource_merges_options[of regular_nouns api "JStr ''cats''" JUndefined ?o
      "options api" ?o _ "''cats''" JUndefined]
  have o: "options (fst (createResource regular_nouns api (JStr ''cats'') JUndefined ?o)) =
      mergeOptions (options api) ?o"
    using t[of "''prefix''"] by simp
  have pr: "entry (others (mergeOptions (options api) ?o)) ''prefix'' = JStr ''/api''"
    using t[of "''prefix''"] by simp
  have pu: "entry (methods (mergeOptions (options api) ?o)) ''put'' = JStr ''post''"
    using t[of "''put''"] by simp
  have ge: "entry (methods (mergeOptions (options api) ?o)) ''get'' = JStr ''GET''"
    using t[of "''get''"] g by simp
  show ?thesis using pr pu ge unfolding o by simp
qed

section \<open>The name of a resource\<close>

text \<open>
  The specification's reading fails on a name with a leading slash: \<open>/cats\<close> gives
  the segment \<open>cats\<close> and the parameter \<open>:cat\<close>, not what pluralizing and
  singularizing \<open>/cats\<close> itself gives, and the resource is named \<open>cats\<close>.
\<close>

theorem route_segment_leading_slash_counterexample:
  "route_segment regular_nouns ''/cats'' \<noteq> spec_route_segment regular_nouns ''/cats'' \<and>
   param_name regular_nouns ''/cats'' \<noteq> spec_param_name regular_nouns ''/cats'' \<and>
   route_segment regular_nouns ''/cats'' = ''cats'' \<and>
   spec_route_segment regular_nouns ''/cats'' = ''/cats'' \<and>
   param_name regular_nouns ''/cats'' = '':cat'' \<and>
   spec_param_name regular_nouns ''/cats'' = '':/cat'' \<and>
   snd (createResource regular_nouns api (JStr ''/cats'') JUndefined JUndefined) = Inr 0 \<and>
   name (heap (fst (createResource regular_nouns api (JStr ''/cats'') JUndefined JUndefined)) ! 0) =
     Some ''cats'' \<and>
   List.map route
     (items (heap (fst (createResource regular_nouns api (JStr ''/cats'') JUndefined JUndefined)) ! 0)) =
     [''/cats'', ''/cats/new'', ''/cats'', ''/cats/:cat'', ''/cats/:cat/edit'', ''/cats/:cat'',
      ''/cats/:cat'']"
  by code_simp

text \<open>
  Claim C3, amended. A \<open>name\<close> that is an object is taken as the controller, the
  second argument as the overrides, and the name is the root marker \<open>/\<close>; a name that
  is neither an object nor a string is replaced by \<open>/\<close> and nothing is rejected. For a
  string name the resource is built from the route segment and the parameter name: for
  \<open>/\<close> they are the empty segment and \<open>:id\<close>; for every other name they are the plural
  and \<open>:\<close> followed by the singular of the name without its leading slash, which for
  a name that does not begin with a slash is the name itself.
\<close>

theorem createResource_name_argument:
  assumes v: "verbs_configured (mergeOptions (options this) opts)"
  shows "(typeof x = ''object'' \<longrightarrow>
            createResource infl this x ctrl opts = createResource infl this (JStr ''/'') x ctrl) \<and>
         (typeof x \<noteq> ''object'' \<and> typeof x \<noteq> ''string'' \<longrightarrow>
            createResource infl this x ctrl opts = createResource infl this (JStr ''/'') ctrl opts) \<and>
         (\<exists>this' p tbl.
            createResource infl this (JStr n) ctrl opts = (this', Inr p) \<and>
            lookup (heap this') p = Some tbl \<and>
            name tbl = Some (if route_segment infl n = [] then ''/'' else route_segment infl n) \<and>
            List.map route (items tbl) =
              [r (route_segment infl n) [], r (route_segment infl n) [''new''],
               r (route_segment infl n) [], r (route_segment infl n) [param_name infl n],
               r (route_segment infl n) [param_name infl n, ''edit''],
               r (route_segment infl n) [param_name infl n],
               r (route_segment infl n) [param_name infl n]]) \<and>
         route_segment infl ''/'' = [] \<and> param_name infl ''/'' = '':id'' \<and>
         (n \<noteq> ''/'' \<longrightarrow>
            route_segment infl n = pluralize infl (if take 1 n = ''/'' then drop 1 n else n) \<and>
            param_name infl n = '':'' @ singularize infl (if take 1 n = ''/'' then drop 1 n else n)) \<and>
         (take 1 n \<noteq> ''/'' \<longrightarrow>
            route_segment infl n = pluralize infl n \<and>
            param_name infl n = '':'' @ singularize infl n)"
proof -
  from v obtain g pu po d where
    vs: "entry (methods (mergeOptions (options this) opts)) ''get'' = JStr g"
       "entry (methods (mergeOptions (options this) opts)) ''put'' = JStr pu"
       "entry (methods (mergeOptions (options this) opts)) ''post'' = JStr po"
       "js_or (entry (methods (mergeOptions (options this) opts)) ''del'')
              (entry (methods (mergeOptions (options this) opts)) ''delete'') = JStr d"
    unfolding verbs_configured_def is_string_conv by auto
  note eq = createResource_string[OF refl refl vs, of infl n ctrl]
  have tbl: "\<exists>this' p tbl.
            createResource infl this (JStr n) ctrl opts = (this', Inr p) \<and>
            lookup (heap this') p = Some tbl \<and>
            name tbl = Some (if route_segment infl n = [] then ''/'' else route_segment infl n) \<and>
            List.map route (items tbl) =
              [r (route_segment infl n) [], r (route_segment infl n) [''new''],
               r (route_segment infl n) [], r (route_segment infl n) [param_name infl n],
               r (route_segment infl n) [param_name infl n, ''edit''],
               r (route_segment infl n) [param_name infl n],
               r (route_segment infl n) [param_name infl n]]"
    unfolding eq
    apply (intro exI conjI, rule refl)
      apply (simp add: lookup_append_new)
     apply simp
    apply simp
    done
  have shapes: "typeof x = ''object'' \<longrightarrow>
            createResource infl this x ctrl opts = createResource infl this (JStr ''/'') x ctrl"
    "typeof x \<noteq> ''object'' \<and> typeof x \<noteq> ''string'' \<longrightarrow>
            createResource infl this x ctrl opts = createResource infl this (JStr ''/'') ctrl opts"
    using createResource_object_name createResource_other_name by blast+
  have segs: "route_segment infl ''/'' = []" "param_name infl ''/'' = '':id''"
    "n \<noteq> ''/'' \<longrightarrow>
            route_segment infl n = pluralize infl (if take 1 n = ''/'' then drop 1 n else n) \<and>
            param_name infl n = '':'' @ singularize infl (if take 1 n = ''/'' then drop 1 n else n)"
    "take 1 n \<noteq> ''/'' \<longrightarrow>
            route_segment infl n = pluralize infl n \<and>
            param_name infl n = '':'' @ singularize infl n"
    by (auto simp: route_segment_def param_name_def Let_def)
  from tbl shapes segs show ?thesis by (intro conjI)
qed

theorem createResource_name_argument_witness:
  "verbs_configured (mergeOptions (options api) JUndefined) \<and>
   typeof (JObj [(''index'', JFn (Middleware 1))]) = ''object'' \<and>
   createResource regular_nouns api (JObj [(''index'', JFn (Middleware 1))]) JUndefined JUndefined =
     createResource regular_nouns api (JStr ''/'') (JObj [(''index'', JFn (Middleware 1))]) JUndefined \<and>
   typeof (JNum 5) \<noteq> ''object'' \<and> typeof (JNum 5) \<noteq> ''string'' \<and>
   createResource regular_nouns api (JNum 5) JUndefined JUndefined =
     createResource regular_nouns api (JStr ''/'') JUndefined JUndefined \<and>
   ''cats'' \<noteq> ''/'' \<and> take 1 ''cats'' \<noteq> ''/'' \<and>
   route_segment regular_nouns ''cats'' = ''cats'' \<and>
   param_name regular_nouns ''cats'' = '':cat''"
proof -
  have p: "pluralize regular_nouns ''cats'' = ''cats''" "singularize regular_nouns ''cats'' = ''cat''"
    by (simp_all add: regular_nouns_def ends_with_s_def)
  note t1 = createResource_name_argument[OF verbs_configured_api,
      of "JObj [(''index'', JFn (Middleware 1))]" regular_nouns JUndefined "''cats''"]
  note t2 = createResource_name_argument[OF verbs_configured_api,
      of "JNum 5" regular_nouns JUndefined "''cats''"]
  have a: "createResource regular_nouns api (JObj [(''index'', JFn (Middleware 1))]) JUndefined JUndefined =
     createResource regular_nouns api (JStr ''/'') (JObj [(''index'', JFn (Middleware 1))]) JUndefined"
    using t1 by simp
  have b: "createResource regular_nouns api (JNum 5) JUndefined JUndefined =
     createResource regular_nouns api (JStr ''/'') JUndefined JUndefined"
    using t2 by simp
  have c: "route_segment regular_nouns ''cats'' = ''cats''" "param_name regular_nouns ''cats'' = '':cat''"
    using t1 p by simp_all
  show ?thesis using a b c verbs_configured_api by simp
qed

section \<open>Handlers of a partial controller\<close>

text \<open>
  Claim C7. \<open>createResource\<close> lays the supplied controller over a default controller
  of seven 501 handlers, so that every action has at least one handler whatever the
  controller leaves out, and building the table never throws for a missing action. The
  code does so only while the map keeps the canonical names. The default controller is
  keyed by the canonical action names, the handlers are read at
  \<open>ctrl[map[action]]\<close>: with an empty controller the index route has the 501 handler
  under the default map, and no handler at all once the map sends \<open>index\<close> to
  \<open>list\<close>. The call returns in both cases.
\<close>

theorem remapped_action_has_no_handler:
  "snd (createResource regular_nouns api (JStr ''cats'') (JObj []) JUndefined) = Inr 0 \<and>
   List.map middlewares
     (items (heap (fst (createResource regular_nouns api (JStr ''cats'') (JObj []) JUndefined)) ! 0)) =
     [[JFn notImplemented], [JFn notImplemented], [JFn notImplemented], [JFn notImplemented],
      [JFn notImplemented], [JFn notImplemented], [JFn notImplemented]] \<and>
   snd (createResource regular_nouns api (JStr ''cats'') (JObj [])
          (JObj [(''map'', JObj [(''index'', JStr ''list'')])])) = Inr 0 \<and>
   List.map middlewares
     (items (heap (fst (createResource regular_nouns api (JStr ''cats'') (JObj [])
                         (JObj [(''map'', JObj [(''index'', JStr ''list'')])]))) ! 0)) =
     [[], [JFn notImplemented], [JFn notImplemented], [JFn notImplemented],
      [JFn notImplemented], [JFn notImplemented], [JFn notImplemented]]"
  by code_simp

section \<open>Grouping\<close>

lemma push_all_map:
  "(\<And>x. x \<in> set xs \<Longrightarrow> f x = Inr (g x)) \<Longrightarrow> push_all (List.map f xs) = Inr (List.map g xs)"
  by (induction xs) simp_all

lemma group_step_provided:
  assumes "lookup (heap this) p = Some s" and "i < length (items s)"
  shows "group_step this (Some p) i (Inr acc) = Inr (nest_route acc (items s ! i))"
  using assms by (simp add: group_step_def createRouteObject_def deref_def nest_route_def)

lemma group_step_absent:
  "group_step this None i acc = acc"
  by (simp add: group_step_def split: sum.splits)

lemma createRouteObject_provided:
  assumes "lookup (heap this) p = Some s" and "i < length (items s)"
  shows "createRouteObject this dr (deref this (Some p)) i = Inr (nest_route dr (items s ! i))"
  using assms by (simp add: createRouteObject_def deref_def nest_route_def)

lemma up_to_four:
  assumes "ps \<noteq> []" and "length ps \<le> 4"
  obtains a where "ps = [a]"
    | a b where "ps = [a, b]"
    | a b c where "ps = [a, b, c]"
    | a b c d where "ps = [a, b, c, d]"
proof -
  from assms(1) have "length ps \<noteq> 0" by simp
  with assms(2) have "length ps = 1 \<or> length ps = 2 \<or> length ps = 3 \<or> length ps = 4"
    by arith
  then show ?thesis
    using that by (auto simp: length_Suc_conv numeral_2_eq_2 numeral_3_eq_3 eval_nat_numeral)
qed

lemma group_route_fold:
  assumes srcs: "list_all2 (\<lambda>p s. lookup (heap this) p = Some s) ps ss"
    and ne: "ps \<noteq> []" and le: "length ps \<le> 4"
    and len: "\<forall>s\<in>set ss. i < length (items s)"
  shows "group_route this (arg_at (List.map Some ps) 0) (arg_at (List.map Some ps) 1)
           (arg_at (List.map Some ps) 2) (arg_at (List.map Some ps) 3) dr i =
         Inr (foldl (\<lambda>acc s. nest_route acc (items s ! i)) dr ss)"
  using ne le
proof (cases rule: up_to_four)
  case (1 a)
  with srcs obtain sa where ss: "ss = [sa]" and a: "lookup (heap this) a = Some sa"
    by (auto simp: list_all2_Cons1)
  show ?thesis
    using len a unfolding 1 ss group_route_def
    by (simp add: arg_at_def group_step_absent createRouteObject_provided)
next
  case (2 a b)
  with srcs obtain sa sb where ss: "ss = [sa, sb]"
    and a: "lookup (heap this) a = Some sa" and b: "lookup (heap this) b = Some sb"
    by (auto simp: list_all2_Cons1)
  show ?thesis
    using len a b unfolding 2 ss group_route_def
    by (simp add: arg_at_def group_step_absent createRouteObject_provided group_step_provided)
next
  case (3 a b c)
  with srcs obtain sa sb sc where ss: "ss = [sa, sb, sc]"
    and a: "lookup (heap this) a = Some sa" and b: "lookup (heap this) b = Some sb"
    and c: "lookup (heap this) c = Some sc"
    by (auto simp: list_all2_Cons1)
  show ?thesis
    using len a b c unfolding 3 ss group_route_def
    by (simp add: arg_at_def group_step_absent createRouteObject_provided group_step_provided)
next
  case (4 a b c d)
  with srcs obtain sa sb sc sd where ss: "ss = [sa, sb, sc, sd]"
    and a: "lookup (heap this) a = Some sa" and b: "lookup (heap this) b = Some sb"
    and c: "lookup (heap this) c = Some sc" and d: "lookup (heap this) d = Some sd"
    by (auto simp: list_all2_Cons1)
  show ?thesis
    using len a b c d unfolding 4 ss group_route_def
    by (simp add: arg_at_def group_step_absent createRouteObject_provided group_step_provided)
qed

lemma nest_fold_verb:
  "http_method (foldl (\<lambda>acc s. nest_route acc (items s ! i)) dr ss) = http_method dr"
  by (induction ss arbitrary: dr) (simp_all add: nest_route_def)

lemma nest_fold_route:
  "route (foldl (\<lambda>acc s. nest_route acc (items s ! i)) dr ss) =
     route dr @ concat (List.map (\<lambda>s. route (items s ! i)) ss)"
  by (induction ss arbitrary: dr) (simp_all add: nest_route_def)

lemma nest_fold_middlewares:
  "ss \<noteq> [] \<Longrightarrow>
   middlewares (foldl (\<lambda>acc s. nest_route acc (items s ! i)) dr ss) = middlewares (items (last ss) ! i)"
  by (induction ss arbitrary: dr rule: rev_induct) (simp_all add: nest_route_def)


text \<open>
  Claim C2. Let the destination and one to four sources be arrays of the heap, each
  source at least as long as the destination. \<open>group\<close> returns a new array, one that was not
  in the heap, with as many route objects as the destination. At each index the verb
  is the destination's, the path is the destination's path followed by the paths of the
  sources at that index in argument order, and the handlers are those of the last
  source at that index. The older arrays, \<open>routes\<close>, \<open>resources\<close> and the options are
  left as they were.
\<close>

theorem group_nests_sources:
  assumes d: "lookup (heap this) dest = Some d"
    and srcs: "list_all2 (\<lambda>p s. lookup (heap this) p = Some s) ps ss"
    and ne: "ps \<noteq> []" and le: "length ps \<le> 4"
    and len: "list_all (\<lambda>s. length (items d) \<le> length (items s)) ss"
  shows "\<exists>this' q rs.
           group this dest (List.map Some ps) = (this', Inr q) \<and>
           lookup (heap this) q = None \<and>
           lookup (heap this') q = Some \<lparr>items = rs, name = None\<rparr> \<and>
           length rs = length (items d) \<and>
           (\<forall>i < length rs.
              http_method (rs ! i) = http_method (items d ! i) \<and>
              route (rs ! i) = route (items d ! i) @ concat (List.map (\<lambda>s. route (items s ! i)) ss) \<and>
              middlewares (rs ! i) = middlewares (items (last ss) ! i)) \<and>
           take (length (heap this)) (heap this') = heap this \<and>
           routes this' = routes this \<and> resources this' = resources this \<and>
           options this' = options this"
proof -
  let ?n = "length (items d)"
  let ?g = "\<lambda>(dr, i). foldl (\<lambda>acc s. nest_route acc (items s ! i)) dr ss"
  let ?f = "\<lambda>(destRoute, idx). group_route this (arg_at (List.map Some ps) 0)
              (arg_at (List.map Some ps) 1) (arg_at (List.map Some ps) 2)
              (arg_at (List.map Some ps) 3) destRoute idx"
  let ?rs = "List.map ?g (zip (items d) [0 ..< ?n])"
  from srcs ne have ssne: "ss \<noteq> []" by (auto simp: list_all2_conv_all_nth)
  have each: "?f x = Inr (?g x)" if x: "x \<in> set (zip (items d) [0 ..< ?n])" for x
  proof -
    obtain dr i where xi: "x = (dr, i)" by (cases x)
    with x have "i < ?n" by (auto dest: set_zip_rightD)
    with len have "\<forall>s\<in>set ss. i < length (items s)" by (fastforce simp: list_all_iff)
    from group_route_fold[OF srcs ne le this] show ?thesis by (simp add: xi)
  qed
  have pa: "push_all (List.map ?f (zip (items d) [0 ..< ?n])) = Inr ?rs"
    by (rule push_all_map) (rule each)
  have g: "group this dest (List.map Some ps) =
      (this\<lparr>heap := heap this @ [\<lparr>items = ?rs, name = None\<rparr>]\<rparr>, Inr (length (heap this)))"
    unfolding group_def Let_def d by (simp only: pa option.case sum.case alloc_def prod.case)
  have nth: "?rs ! i = foldl (\<lambda>acc s. nest_route acc (items s ! i)) (items d ! i) ss" if "i < ?n" for i
    using that by simp
  have props: "\<forall>i < length ?rs.
              http_method (?rs ! i) = http_method (items d ! i) \<and>
              route (?rs ! i) = route (items d ! i) @ concat (List.map (\<lambda>s. route (items s ! i)) ss) \<and>
              middlewares (?rs ! i) = middlewares (items (last ss) ! i)"
    using nest_fold_middlewares[OF ssne]
    by (simp add: nest_fold_verb nest_fold_route del: foldl_conv_fold)
  show ?thesis
    unfolding g
    apply (rule exI, rule exI, rule exI[of _ ?rs], intro conjI, rule refl)
           apply (simp add: lookup_fresh)
          apply (simp add: lookup_append_new)
         apply simp
        apply (rule props)
       apply simp_all
    done
qed

theorem group_nests_sources_witness:
  "lookup (heap three_arrays) 0 = Some \<lparr>items = companies, name = Some ''companies''\<rparr> \<and>
   lookup (heap three_arrays) 1 = Some \<lparr>items = departments, name = Some ''departments''\<rparr> \<and>
   lookup (heap three_arrays) 2 = Some \<lparr>items = users, name = Some ''users''\<rparr> \<and>
   length departments = length companies \<and> length users = length companies \<and>
   (\<exists>this' q rs.
      group three_arrays 0 [Some 1, Some 2] = (this', Inr q) \<and>
      lookup (heap three_arrays) q = None \<and>
      lookup (heap this') q = Some \<lparr>items = rs, name = None\<rparr> \<and>
      length rs = 2 \<and>
      http_method (rs ! 1) = ''PUT'' \<and>
      route (rs ! 1) = ''/companies/:company/departments/:department/users/:user'' \<and>
      middlewares (rs ! 1) = [] \<and>
      route (rs ! 0) = ''/companies/departments/users'' \<and>
      middlewares (rs ! 0) = [JFn (Middleware 6)] \<and>
      routes this' = routes three_arrays \<and> resources this' = resources three_arrays)"
proof -
  let ?c = "\<lparr>items = companies, name = Some ''companies''\<rparr>"
  let ?d = "\<lparr>items = departments, name = Some ''departments''\<rparr>"
  let ?u = "\<lparr>items = users, name = Some ''users''\<rparr>"
  have c: "lookup (heap three_arrays) 0 = Some ?c"
    and d: "lookup (heap three_arrays) 1 = Some ?d"
    and u: "lookup (heap three_arrays) 2 = Some ?u"
    by (simp_all add: three_arrays_def lookup_def)
  have srcs: "list_all2 (\<lambda>p s. lookup (heap three_arrays) p = Some s) [1, 2] [?d, ?u]"
    using d u by simp
  have len: "list_all (\<lambda>s. length (items ?c) \<le> length (items s)) [?d, ?u]"
    by (simp add: companies_def departments_def users_def)
  have l2: "length departments = length companies" "length users = length companies"
    by (simp_all add: companies_def departments_def users_def)
  from group_nests_sources[OF c srcs _ _ len]
  obtain this' q rs where
    g: "group three_arrays 0 [Some 1, Some 2] = (this', Inr q)"
    and fresh: "lookup (heap three_arrays) q = None"
    and lk: "lookup (heap this') q = Some \<lparr>items = rs, name = None\<rparr>"
    and n: "length rs = length companies"
    and props: "\<forall>i < length rs.
              http_method (rs ! i) = http_method (companies ! i) \<and>
              route (rs ! i) = route (companies ! i) @ concat (List.map (\<lambda>s. route (items s ! i)) [?d, ?u]) \<and>
              middlewares (rs ! i) = middlewares (items (last [?d, ?u]) ! i)"
    and frame: "routes this' = routes three_arrays" "resources this' = resources three_arrays"
    by auto
  from n have n2: "length rs = 2" by (simp add: companies_def)
  from props n2 have p0: "route (rs ! 0) = ''/companies/departments/users''"
      "middlewares (rs ! 0) = [JFn (Middleware 6)]"
    by (simp_all add: companies_def departments_def users_def)
  from props n2 have p1: "http_method (rs ! 1) = ''PUT''"
      "route (rs ! 1) = ''/companies/:company/departments/:department/users/:user''"
      "middlewares (rs ! 1) = []"
    by (simp_all add: companies_def departments_def users_def)
  from g fresh lk n2 p0 p1 frame have "\<exists>this' q rs.
      group three_arrays 0 [Some 1, Some 2] = (this', Inr q) \<and>
      lookup (heap three_arrays) q = None \<and>
      lookup (heap this') q = Some \<lparr>items = rs, name = None\<rparr> \<and>
      length rs = 2 \<and>
      http_method (rs ! 1) = ''PUT'' \<and>
      route (rs ! 1) = ''/companies/:company/departments/:department/users/:user'' \<and>
      middlewares (rs ! 1) = [] \<and>
      route (rs ! 0) = ''/companies/departments/users'' \<and>
      middlewares (rs ! 0) = [JFn (Middleware 6)] \<and>
      routes this' = routes three_arrays \<and> resources this' = resources three_arrays"
    by (intro exI conjI)
  with c d u l2 show ?thesis by (intro conjI)
qed

end
